theory Spec2Isabelle
  imports Complex_Main
begin

section \<open>Escape-time evaluator\<close>

text \<open>
  The source, \<^verbatim>\<open>mandel.py\<close>:
  \<^verbatim>\<open>
  def mandelbrot(c, max_iter):
      z = 0
      for n in range(max_iter):
          if abs(z) > 2:
              return n
          z = z**2 + c
      return max_iter
  \<close>
  Double-precision numbers are idealised as real numbers, so \<open>c\<close> and \<open>z\<close> are of type
  \<^typ>\<open>complex\<close>; the iteration cap is a Python integer, here \<^typ>\<open>int\<close>.
  The magnitude and the update are exact here, while the program rounds both: a point
  whose exact magnitude is just above \<open>2\<close>, such as \<open>2 + \<i> / 2 ^ 30\<close>, has the computed
  magnitude \<open>2\<close> and escapes later in the program than in the model, and a magnitude
  beyond the range of doubles is an overflow that the model does not have. The theorems
  about the evaluator below therefore state only what does not depend on the value that
  the escape test sees after iteration \<open>0\<close>, where \<open>z = 0\<close> exactly, or after
  updates of \<open>z = 0\<close> with \<open>c = 0\<close>, which are exact as well.
  The \<^verbatim>\<open>for\<close> loop walks the list \<^verbatim>\<open>range(max_iter)\<close>, which is empty for a
  cap that is zero or negative. \<open>mandelbrot_loop\<close> is the loop body run over the rest of
  that list: it yields \<open>Some n\<close> when the \<^verbatim>\<open>return n\<close> inside the loop is taken and
  \<open>None\<close> when the list is exhausted, after which the code returns \<^verbatim>\<open>max_iter\<close>.
\<close>

fun mandelbrot_loop :: "complex \<Rightarrow> complex \<Rightarrow> nat list \<Rightarrow> nat option" where
  "mandelbrot_loop c z [] = None"
| "mandelbrot_loop c z (n # ns) =
     (if cmod z > 2 then Some n else mandelbrot_loop c (z\<^sup>2 + c) ns)"

definition mandelbrot :: "complex \<Rightarrow> int \<Rightarrow> int" where
  "mandelbrot c max_iter =
     (case mandelbrot_loop c 0 [0..<nat max_iter] of
        Some n \<Rightarrow> int n
      | None \<Rightarrow> max_iter)"

section \<open>Grid generator\<close>

text \<open>
  Python exceptions that the modelled code can raise. A function that may raise returns
  \<open>error + 'a\<close>, with \<open>Inl\<close> for the exception.
\<close>

datatype error = ValueError | IndexError

text \<open>
  Modelled from the spec: \<^verbatim>\<open>numpy.linspace\<close> is library code that is not part of the
  source file. The specification describes its result as \<open>num\<close> evenly spaced samples over
  \<open>[start, stop]\<close> inclusive of both endpoints, with \<open>num - 1\<close> intervals when
  \<open>num > 1\<close> and the single sample \<open>start\<close> when \<open>num = 1\<close>. The definition follows
  the way the library computes them: the indices \<open>0, \<dots>, num - 1\<close> are scaled by the step
  \<open>(stop - start) / (num - 1)\<close> and shifted by \<open>start\<close>, and the last sample is then
  overwritten with \<open>stop\<close>. A negative count raises \<^verbatim>\<open>ValueError\<close>; the count \<open>0\<close>
  gives the empty array.
\<close>

definition linspace :: "real \<Rightarrow> real \<Rightarrow> int \<Rightarrow> error + real list" where
  "linspace start stop num =
     (if num < 0 then Inl ValueError
      else
        let divisor = num - 1;
            delta = stop - start;
            y = map real [0..<nat num];
            y = (if 0 < divisor then map (\<lambda>t. t * (delta / of_int divisor)) y
                 else map (\<lambda>t. t * delta) y);
            y = map (\<lambda>t. t + start) y
        in Inr (if 1 < num then y[nat num - 1 := stop] else y))"

text \<open>
  \<^verbatim>\<open>
  def compute_row(i, real, imag, max_iter, width):
      row = []
      for j in range(width):
          c = real[j] + 1j * imag[i]
          row.append(mandelbrot(c, max_iter))
      return row
  \<close>
  The indices \<open>i\<close> and \<open>j\<close> come from \<^verbatim>\<open>range\<close> and are never negative; reading
  an array past its end raises \<^verbatim>\<open>IndexError\<close>.
\<close>

fun compute_row_loop ::
  "nat \<Rightarrow> real list \<Rightarrow> real list \<Rightarrow> int \<Rightarrow> nat list \<Rightarrow> int list \<Rightarrow> error + int list" where
  "compute_row_loop i re im max_iter [] row = Inr row"
| "compute_row_loop i re im max_iter (j # js) row =
     (if j < length re \<and> i < length im
      then let c = complex_of_real (re ! j) + \<i> * complex_of_real (im ! i)
           in compute_row_loop i re im max_iter js (row @ [mandelbrot c max_iter])
      else Inl IndexError)"

definition compute_row ::
  "nat \<Rightarrow> real list \<Rightarrow> real list \<Rightarrow> int \<Rightarrow> int \<Rightarrow> error + int list" where
  "compute_row i re im max_iter width =
     compute_row_loop i re im max_iter [0..<nat width] []"

text \<open>
  \<^verbatim>\<open>list(executor.map(f, ...))\<close> hands each tuple of arguments to a worker process and
  collects the results in the order of the arguments, whatever the order in which the
  workers finish; the first exception in that order is raised to the caller. The model
  is the ordered map that stops at the first error.
\<close>

fun executor_map :: "('a \<Rightarrow> error + 'b) \<Rightarrow> 'a list \<Rightarrow> error + 'b list" where
  "executor_map f [] = Inr []"
| "executor_map f (x # xs) =
     (case f x of
        Inl e \<Rightarrow> Inl e
      | Inr y \<Rightarrow> (case executor_map f xs of Inl e \<Rightarrow> Inl e | Inr ys \<Rightarrow> Inr (y # ys)))"

text \<open>
  \<^verbatim>\<open>
  def generate_mandelbrot(xmin, xmax, ymin, ymax, width, height, max_iter):
      real = np.linspace(xmin, xmax, width)
      imag = np.linspace(ymin, ymax, height)
      with ProcessPoolExecutor() as executor:
          mandelbrot_set = list(executor.map(compute_row, range(height),
              [real]*height, [imag]*height, [max_iter]*height, [width]*height))
      return np.array(mandelbrot_set)
  \<close>
  The five argument sequences are zipped; the grid is the list of rows.
\<close>

definition generate_mandelbrot ::
  "real \<Rightarrow> real \<Rightarrow> real \<Rightarrow> real \<Rightarrow> int \<Rightarrow> int \<Rightarrow> int \<Rightarrow> error + int list list" where
  "generate_mandelbrot xmin xmax ymin ymax width height max_iter =
     (case linspace xmin xmax width of
        Inl e \<Rightarrow> Inl e
      | Inr re \<Rightarrow>
          (case linspace ymin ymax height of
             Inl e \<Rightarrow> Inl e
           | Inr im \<Rightarrow>
               executor_map (\<lambda>(i, r, m, k, w). compute_row i r m k w)
                 (zip [0..<nat height]
                   (zip (replicate (nat height) re)
                     (zip (replicate (nat height) im)
                       (zip (replicate (nat height) max_iter)
                            (replicate (nat height) width)))))))"

subsection \<open>The reference grid of the specification\<close>

text \<open>
  The specification's samples: \<open>n\<close> evenly spaced points over \<open>[lo, hi]\<close> with both
  endpoints, \<open>n - 1\<close> intervals when \<open>n > 1\<close>, and the point \<open>lo\<close> alone otherwise.
  \<open>evenly_spaced lo hi n k\<close> is the sample of index \<open>k\<close>.
\<close>

definition evenly_spaced :: "real \<Rightarrow> real \<Rightarrow> int \<Rightarrow> nat \<Rightarrow> real" where
  "evenly_spaced lo hi n k =
     (if 1 < n then lo + real k * (hi - lo) / of_int (n - 1) else lo)"

text \<open>
  The sequential, row-major grid: row \<open>i\<close> fixes the imaginary part, column \<open>j\<close> the
  real part, and cell \<open>(i, j)\<close> is the evaluator at that point.
\<close>

definition reference_grid ::
  "real \<Rightarrow> real \<Rightarrow> real \<Rightarrow> real \<Rightarrow> int \<Rightarrow> int \<Rightarrow> int \<Rightarrow> int list list" where
  "reference_grid xmin xmax ymin ymax width height max_iter =
     map (\<lambda>i. map (\<lambda>j. mandelbrot (Complex (evenly_spaced xmin xmax width j)
                                       (evenly_spaced ymin ymax height i)) max_iter)
                [0..<nat width])
         [0..<nat height]"

text \<open>
  A grid of \<open>height\<close> rows of \<open>width\<close> cells each, every cell within \<open>[0, max_iter]\<close>.
\<close>

definition grid_shape :: "int \<Rightarrow> int \<Rightarrow> int \<Rightarrow> int list list \<Rightarrow> bool" where
  "grid_shape width height max_iter grid =
     (int (length grid) = height \<and>
      list_all (\<lambda>row. int (length row) = width \<and>
                      list_all (\<lambda>n. 0 \<le> n \<and> n \<le> max_iter) row) grid)"

text \<open>
  A grid of \<open>height\<close> rows of \<open>width\<close> cells each, whatever the cells hold.
\<close>

definition grid_dims :: "int \<Rightarrow> int \<Rightarrow> int list list \<Rightarrow> bool" where
  "grid_dims width height grid =
     (int (length grid) = height \<and> list_all (\<lambda>row. int (length row) = width) grid)"

section \<open>Viewport history\<close>

text \<open>
  A viewport is a dictionary with the four keys \<^verbatim>\<open>'xmin'\<close>, \<^verbatim>\<open>'xmax'\<close>,
  \<^verbatim>\<open>'ymin'\<close>, \<^verbatim>\<open>'ymax'\<close>; every dictionary of the program has exactly these keys,
  so it is a record here (the fields carry a prefix, the plain names being the parameters
  of the functions above). The history only ever holds copies, so no two entries alias.
\<close>

record viewport =
  vp_xmin :: real
  vp_xmax :: real
  vp_ymin :: real
  vp_ymax :: real

text \<open>
  The module-level variables:
  \<^verbatim>\<open>
  zoom_params = {'xmin': -2.5, 'xmax': 1, 'ymin': -1.5, 'ymax': 1.5}
  original_zoom = zoom_params.copy()
  zoom_history = [zoom_params.copy()]
  timing_history = []
  width, height, max_iter = 800, 800, 100
  \<close>
  \<^verbatim>\<open>original_zoom\<close> and the resolution are never assigned again and are constants
  (the resolution constants are prefixed, since the parameters of \<open>generate_mandelbrot\<close>
  shadow them); the other three make up the state. The top of the stack is the end of
  the list.
\<close>

definition original_zoom :: viewport where
  "original_zoom = \<lparr>vp_xmin = -2.5, vp_xmax = 1, vp_ymin = -1.5, vp_ymax = 1.5\<rparr>"

definition global_width :: int where "global_width = 800"
definition global_height :: int where "global_height = 800"
definition global_max_iter :: int where "global_max_iter = 100"

record gui_state =
  zoom_params :: viewport
  zoom_history :: "viewport list"
  timing_history :: "real list"

definition initial_state :: gui_state where
  "initial_state =
     \<lparr>zoom_params = original_zoom, zoom_history = [original_zoom], timing_history = []\<rparr>"

text \<open>
  \<^verbatim>\<open>
  def update_plot(xmin, xmax, ymin, ymax):
      global zoom_params, timing_history
      zoom_params.update({'xmin': xmin, 'xmax': xmax, 'ymin': ymin, 'ymax': ymax})
      start_time = time.time()
      mandelbrot_zoom = generate_mandelbrot(xmin, xmax, ymin, ymax, width, height, max_iter)
      elapsed_time = time.time() - start_time
      timing_history.append(elapsed_time)
      ...
  \<close>
  What follows in the source draws the grid and is not modelled; it comes after every
  change of the state. The measured time is an input of the model. A handler returns the
  exception it raised, if any, together with the state it leaves behind: a change made
  before an exception stays.
\<close>

definition update_plot ::
  "real \<Rightarrow> real \<Rightarrow> real \<Rightarrow> real \<Rightarrow> real \<Rightarrow> gui_state \<Rightarrow> error option \<times> gui_state" where
  "update_plot xmin xmax ymin ymax elapsed_time s =
     (let s1 = s\<lparr>zoom_params :=
                  \<lparr>vp_xmin = xmin, vp_xmax = xmax, vp_ymin = ymin, vp_ymax = ymax\<rparr>\<rparr>
      in case generate_mandelbrot xmin xmax ymin ymax
                global_width global_height global_max_iter of
           Inl e \<Rightarrow> (Some e, s1)
         | Inr mandelbrot_zoom \<Rightarrow>
             (None, s1\<lparr>timing_history := timing_history s1 @ [elapsed_time]\<rparr>))"

text \<open>
  \<^verbatim>\<open>
  def onselect(eclick, erelease):
      xmin, xmax = sorted([eclick.xdata, erelease.xdata])
      ymin, ymax = sorted([eclick.ydata, erelease.ydata])
      zoom_history.append(zoom_params.copy())  # Save current zoom before changing
      update_plot(xmin, xmax, ymin, ymax)
  \<close>
  An event is the pair of its \<^verbatim>\<open>xdata\<close> and \<^verbatim>\<open>ydata\<close>.
\<close>

definition onselect ::
  "real \<times> real \<Rightarrow> real \<times> real \<Rightarrow> real \<Rightarrow> gui_state \<Rightarrow> error option \<times> gui_state" where
  "onselect eclick erelease elapsed_time s =
     (let xmin = min (fst eclick) (fst erelease);
          xmax = max (fst eclick) (fst erelease);
          ymin = min (snd eclick) (snd erelease);
          ymax = max (snd eclick) (snd erelease);
          s1 = s\<lparr>zoom_history := zoom_history s @ [zoom_params s]\<rparr>
      in update_plot xmin xmax ymin ymax elapsed_time s1)"

text \<open>
  \<^verbatim>\<open>
  def reset():
      global zoom_params, zoom_history, timing_history
      zoom_params = original_zoom.copy()
      zoom_history = [original_zoom.copy()]  # Clear history
      timing_history = []  # Clear timing history
      update_plot(**original_zoom)
  \<close>
\<close>

definition reset :: "real \<Rightarrow> gui_state \<Rightarrow> error option \<times> gui_state" where
  "reset elapsed_time s =
     (let s1 = s\<lparr>zoom_params := original_zoom,
                 zoom_history := [original_zoom],
                 timing_history := []\<rparr>
      in update_plot (vp_xmin original_zoom) (vp_xmax original_zoom)
                     (vp_ymin original_zoom) (vp_ymax original_zoom) elapsed_time s1)"

text \<open>
  \<^verbatim>\<open>
  # Go back one zoom step
  def zoom_back():
      global zoom_history
      if len(zoom_history) > 1:
          zoom_history.pop()  # Remove current zoom
          previous_zoom = zoom_history[-1]  # Get the last zoom
          update_plot(**previous_zoom)
  \<close>
\<close>

definition zoom_back :: "real \<Rightarrow> gui_state \<Rightarrow> error option \<times> gui_state" where
  "zoom_back elapsed_time s =
     (if length (zoom_history s) > 1
      then let s1 = s\<lparr>zoom_history := butlast (zoom_history s)\<rparr>;
               previous_zoom = last (zoom_history s1)
           in update_plot (vp_xmin previous_zoom) (vp_xmax previous_zoom)
                          (vp_ymin previous_zoom) (vp_ymax previous_zoom) elapsed_time s1
      else (None, s))"

text \<open>
  The three gestures of the user interface, each with the time its rendering took, and
  a run of the interface over a sequence of gestures. An exception raised inside a
  handler is reported by the event loop and the interface goes on from the state left.
\<close>

datatype action =
    Select "real \<times> real" "real \<times> real" real
  | Reset real
  | Back real

fun step :: "action \<Rightarrow> gui_state \<Rightarrow> gui_state" where
  "step (Select eclick erelease t) s = snd (onselect eclick erelease t s)"
| "step (Reset t) s = snd (reset t s)"
| "step (Back t) s = snd (zoom_back t s)"

fun run :: "action list \<Rightarrow> gui_state \<Rightarrow> gui_state" where
  "run [] s = s"
| "run (a # as) s = run as (step a s)"

section \<open>Properties of the evaluator\<close>

subsection \<open>The loop over an interval of indices\<close>

lemma mandelbrot_loop_mem:
  "mandelbrot_loop c z ns = Some n \<Longrightarrow> n \<in> set ns"
  by (induction ns arbitrary: z) (auto split: if_splits)

text \<open>
  Raising the upper end of the index interval only appends indices: a run that returned
  inside the shorter interval returns the same index inside the longer one.
\<close>

lemma mandelbrot_loop_append_Some:
  "mandelbrot_loop c z ns = Some n \<Longrightarrow> mandelbrot_loop c z (ns @ ms) = Some n"
  by (induction ns arbitrary: z) (auto split: if_splits)

lemma mandelbrot_loop_append_None:
  "mandelbrot_loop c z ns = None \<Longrightarrow>
   mandelbrot_loop c z (ns @ ms) = mandelbrot_loop c (((\<lambda>w. w\<^sup>2 + c) ^^ length ns) z) ms"
proof (induction ns arbitrary: z)
  case Nil
  then show ?case by simp
next
  case (Cons k ks)
  then show ?case by (simp add: funpow_Suc_right del: funpow.simps split: if_splits)
qed

lemma mandelbrot_loop_zero_orbit:
  "mandelbrot_loop 0 0 ns = None"
  by (induction ns) simp_all

lemma mandelbrot_nonneg:
  "0 \<le> max_iter \<Longrightarrow> 0 \<le> mandelbrot c max_iter"
  by (simp add: mandelbrot_def split: option.splits)

lemma mandelbrot_le_cap:
  "0 \<le> max_iter \<Longrightarrow> mandelbrot c max_iter \<le> max_iter"
proof (cases "mandelbrot_loop c 0 [0..<nat max_iter]")
  case None
  then show ?thesis by (simp add: mandelbrot_def)
next
  case (Some n)
  assume "0 \<le> max_iter"
  from mandelbrot_loop_mem [OF Some] have "n < nat max_iter" by simp
  with Some show ?thesis by (simp add: mandelbrot_def)
qed

lemma mandelbrot_loop_first:
  "0 < m \<Longrightarrow> mandelbrot_loop c 0 [0..<m] = mandelbrot_loop c c [Suc 0..<m]"
  by (simp add: upt_conv_Cons)

subsection \<open>The claims about the evaluator\<close>

text \<open>
  C7. For \<open>c = 0\<close> and every cap \<open>max_iter \<ge> 1\<close> the evaluator returns \<open>max_iter\<close>:
  \<open>z\<close> stays \<open>0\<close>, so the escape test never succeeds and the loop runs to its end.
\<close>

theorem mandelbrot_origin:
  "1 \<le> max_iter \<Longrightarrow> mandelbrot 0 max_iter = max_iter"
  by (simp add: mandelbrot_def mandelbrot_loop_zero_orbit)

theorem mandelbrot_origin_witness:
  "(1::int) \<le> 100 \<and> mandelbrot 0 100 = 100"
  using mandelbrot_origin [of 100] by simp

text \<open>
  C9. For every \<open>c\<close> and every cap \<open>max_iter \<ge> 1\<close> the evaluator returns at least \<open>1\<close>:
  the escape test of iteration \<open>0\<close> looks at \<open>z = 0\<close>, whose magnitude is not above \<open>2\<close>,
  so \<open>0\<close> is never returned.
\<close>

theorem mandelbrot_ge_one:
  assumes "1 \<le> max_iter"
  shows "1 \<le> mandelbrot c max_iter"
proof (cases "mandelbrot_loop c 0 [0..<nat max_iter]")
  case None
  with assms show ?thesis by (simp add: mandelbrot_def)
next
  case (Some n)
  from assms have "0 < nat max_iter" by simp
  from mandelbrot_loop_first [OF this] Some
  have "mandelbrot_loop c c [Suc 0..<nat max_iter] = Some n" by simp
  then have "n \<in> set [Suc 0..<nat max_iter]" by (rule mandelbrot_loop_mem)
  then have "1 \<le> n" by simp
  with Some show ?thesis by (simp add: mandelbrot_def)
qed

theorem mandelbrot_ge_one_witness:
  "(1::int) \<le> 1 \<and> 1 \<le> mandelbrot (Complex 3 4) 1"
  using mandelbrot_ge_one [of 1 "Complex 3 4"] by simp

text \<open>
  C10. For every \<open>c\<close> and all caps \<open>1 \<le> m1 \<le> m2\<close>, the result under the smaller cap is
  the result under the larger cap truncated at the smaller cap:
  \<open>evaluate(c, m1) = min(evaluate(c, m2), m1)\<close>.
\<close>

theorem mandelbrot_cap_truncates:
  assumes "1 \<le> m1" and "m1 \<le> m2"
  shows "mandelbrot c m1 = min (mandelbrot c m2) m1"
proof -
  from assms have le: "nat m1 \<le> nat m2" by simp
  have split: "[0..<nat m2] = [0..<nat m1] @ [nat m1..<nat m2]"
    using upt_add_eq_append [of 0 "nat m1" "nat m2 - nat m1"] le by simp
  show ?thesis
  proof (cases "mandelbrot_loop c 0 [0..<nat m1]")
    case (Some n)
    from mandelbrot_loop_mem [OF Some] have "n < nat m1" by simp
    moreover from mandelbrot_loop_append_Some [OF Some]
    have "mandelbrot_loop c 0 [0..<nat m2] = Some n" by (simp add: split)
    ultimately show ?thesis using Some by (simp add: mandelbrot_def)
  next
    case None
    then have short: "mandelbrot c m1 = m1" by (simp add: mandelbrot_def)
    from mandelbrot_loop_append_None [OF None]
    have long: "mandelbrot_loop c 0 [0..<nat m2] =
      mandelbrot_loop c (((\<lambda>w. w\<^sup>2 + c) ^^ nat m1) 0) [nat m1..<nat m2]"
      by (simp add: split)
    have "m1 \<le> mandelbrot c m2"
    proof (cases "mandelbrot_loop c 0 [0..<nat m2]")
      case None
      with assms show ?thesis by (simp add: mandelbrot_def)
    next
      case (Some k)
      with long have "k \<in> set [nat m1..<nat m2]"
        by (metis mandelbrot_loop_mem)
      then have "nat m1 \<le> k" by simp
      with Some show ?thesis by (simp add: mandelbrot_def)
    qed
    with short show ?thesis by simp
  qed
qed

theorem mandelbrot_cap_truncates_witness:
  "(1::int) \<le> 2 \<and> (2::int) \<le> 3 \<and> mandelbrot 1 2 = min (mandelbrot 1 3) 2"
  using mandelbrot_cap_truncates [of 2 3 1] by simp

text \<open>
  C2, as the specification states it: for every \<open>c\<close> with \<open>|c| > 2\<close> and every cap
  \<open>max_iter \<ge> 1\<close> the evaluator returns \<open>0\<close>. The code does not: at \<open>c = 3\<close> with cap
  \<open>5\<close> it returns \<open>1\<close>, because the first test is made on \<open>z = 0\<close> and \<open>c\<close> is only
  seen by the test of iteration \<open>1\<close>.
\<close>

theorem mandelbrot_outside_not_zero:
  "2 < cmod (Complex 3 0) \<and> (1::int) \<le> 5 \<and> mandelbrot (Complex 3 0) 5 \<noteq> 0"
proof -
  have "[0..<nat 5] = [0, 1, 2, 3, 4]" by (simp add: upt_rec)
  then have "mandelbrot (Complex 3 0) 5 = 1"
    by (simp add: mandelbrot_def cmod_def)
  then show ?thesis by (simp add: cmod_def)
qed

text \<open>
  C2, amended: for every \<open>c\<close> with \<open>|c| > 2\<close> and every cap \<open>max_iter \<ge> 1\<close> the
  evaluator does not return \<open>0\<close>: its result lies between \<open>1\<close> and \<open>max_iter\<close>.
  Iteration \<open>0\<close> tests \<open>z = 0\<close>, so the escape of \<open>c\<close> is seen at iteration \<open>1\<close> at the
  earliest, and with cap \<open>1\<close> the loop ends before that and the cap is returned.
\<close>

theorem mandelbrot_outside_from_one:
  assumes "2 < cmod c" and "1 \<le> max_iter"
  shows "mandelbrot c max_iter \<noteq> 0 \<and>
         1 \<le> mandelbrot c max_iter \<and> mandelbrot c max_iter \<le> max_iter"
proof -
  have lower: "1 \<le> mandelbrot c max_iter"
  proof (cases "mandelbrot_loop c 0 [0..<nat max_iter]")
    case None
    with assms(2) show ?thesis by (simp add: mandelbrot_def)
  next
    case (Some n)
    from assms(2) have "0 < nat max_iter" by simp
    then have "mandelbrot_loop c 0 [0..<nat max_iter] =
        mandelbrot_loop c c [Suc 0..<nat max_iter]"
      by (rule mandelbrot_loop_first)
    with Some have "mandelbrot_loop c c [Suc 0..<nat max_iter] = Some n" by simp
    then have "n \<in> set [Suc 0..<nat max_iter]" by (rule mandelbrot_loop_mem)
    then have "Suc 0 \<le> n" by simp
    with Some show ?thesis by (simp add: mandelbrot_def)
  qed
  moreover from assms(2) have "mandelbrot c max_iter \<le> max_iter"
    by (intro mandelbrot_le_cap) simp
  ultimately show ?thesis by simp
qed

theorem mandelbrot_outside_from_one_witness:
  "2 < cmod (Complex 3 0) \<and> (1::int) \<le> 100 \<and>
   mandelbrot (Complex 3 0) 100 \<noteq> 0 \<and>
   1 \<le> mandelbrot (Complex 3 0) 100 \<and> mandelbrot (Complex 3 0) 100 \<le> 100"
proof -
  have far: "2 < cmod (Complex 3 0)" by (simp add: cmod_def)
  have cap: "(1::int) \<le> 100" by simp
  from far cap mandelbrot_outside_from_one [OF far cap] show ?thesis by simp
qed

section \<open>Properties of the grid generator\<close>

subsection \<open>Samples, rows and the ordered map\<close>

lemma linspace_negative:
  "num < 0 \<Longrightarrow> linspace start stop num = Inl ValueError"
  by (simp add: linspace_def)

lemma linspace_samples:
  assumes "0 \<le> num"
  shows "linspace start stop num = Inr (map (evenly_spaced start stop num) [0..<nat num])"
proof (cases "1 < num")
  case False
  with assms have "num = 0 \<or> num = 1" by linarith
  then show ?thesis
    by (auto simp: linspace_def evenly_spaced_def)
next
  case True
  let ?step = "(stop - start) / of_int (num - 1)"
  let ?y = "map (\<lambda>t. t + start) (map (\<lambda>t. t * ?step) (map real [0..<nat num]))"
  have lin: "linspace start stop num = Inr (?y[nat num - 1 := stop])"
    using True by (simp add: linspace_def Let_def)
  have "?y[nat num - 1 := stop] = map (evenly_spaced start stop num) [0..<nat num]"
  proof (rule nth_equalityI)
    show "length (?y[nat num - 1 := stop]) = length (map (evenly_spaced start stop num) [0..<nat num])"
      by simp
  next
    fix k
    assume "k < length (?y[nat num - 1 := stop])"
    then have k: "k < nat num" by simp
    show "?y[nat num - 1 := stop] ! k = map (evenly_spaced start stop num) [0..<nat num] ! k"
    proof (cases "k = nat num - 1")
      case True
      have "real (nat num - 1) = of_int (num - 1)" using \<open>1 < num\<close> by simp
      moreover have "(of_int (num - 1) :: real) \<noteq> 0" using \<open>1 < num\<close> by simp
      ultimately have "start + real (nat num - 1) * (stop - start) / of_int (num - 1) = stop"
        by simp
      with True k \<open>1 < num\<close> show ?thesis
        by (simp add: evenly_spaced_def)
    next
      case False
      with k \<open>1 < num\<close> show ?thesis
        by (simp add: evenly_spaced_def add.commute)
    qed
  qed
  with lin show ?thesis by simp
qed

lemma compute_row_loop_map:
  assumes "\<forall>j \<in> set js. j < length re" and "i < length im"
  shows "compute_row_loop i re im max_iter js row =
         Inr (row @ map (\<lambda>j. mandelbrot (Complex (re ! j) (im ! i)) max_iter) js)"
  using assms
proof (induction js arbitrary: row)
  case Nil
  then show ?case by simp
next
  case (Cons j js)
  have "complex_of_real (re ! j) + \<i> * complex_of_real (im ! i) = Complex (re ! j) (im ! i)"
    by (simp add: complex_eq_iff)
  with Cons show ?case by (simp add: Let_def)
qed

lemma compute_row_map:
  assumes "nat width \<le> length re" and "i < length im"
  shows "compute_row i re im max_iter width =
         Inr (map (\<lambda>j. mandelbrot (Complex (re ! j) (im ! i)) max_iter) [0..<nat width])"
  using assms by (simp add: compute_row_def compute_row_loop_map)

lemma compute_row_empty:
  "width \<le> 0 \<Longrightarrow> compute_row i re im max_iter width = Inr []"
  by (simp add: compute_row_def)

lemma executor_map_all_ok:
  "(\<And>x. x \<in> set xs \<Longrightarrow> f x = Inr (g x)) \<Longrightarrow> executor_map f xs = Inr (map g xs)"
  by (induction xs) simp_all

lemma executor_map_map:
  "executor_map f (map h xs) = executor_map (\<lambda>x. f (h x)) xs"
  by (induction xs) (simp_all split: sum.splits)

lemma zip_arguments:
  "zip [0..<n] (zip (replicate n a) (zip (replicate n b) (zip (replicate n c) (replicate n d))))
   = map (\<lambda>i. (i, a, b, c, d)) [0..<n]"
  by (simp add: zip_replicate2 zip_replicate1 map_replicate_const)


lemma generate_mandelbrot_negative:
  "width < 0 \<or> height < 0 \<Longrightarrow>
   generate_mandelbrot xmin xmax ymin ymax width height max_iter = Inl ValueError"
  by (cases "width < 0")
     (auto simp: generate_mandelbrot_def linspace_negative linspace_samples)

lemma generate_mandelbrot_reference:
  assumes "0 \<le> width" and "0 \<le> height"
  shows "generate_mandelbrot xmin xmax ymin ymax width height max_iter =
         Inr (reference_grid xmin xmax ymin ymax width height max_iter)"
proof -
  let ?re = "map (evenly_spaced xmin xmax width) [0..<nat width]"
  let ?im = "map (evenly_spaced ymin ymax height) [0..<nat height]"
  let ?row = "\<lambda>i. map (\<lambda>j. mandelbrot (Complex (evenly_spaced xmin xmax width j)
                                        (evenly_spaced ymin ymax height i)) max_iter)
                      [0..<nat width]"
  have row: "compute_row i ?re ?im max_iter width = Inr (?row i)"
    if "i \<in> set [0..<nat height]" for i
  proof -
    from that have "i < length ?im" by simp
    moreover have "nat width \<le> length ?re" by simp
    ultimately have "compute_row i ?re ?im max_iter width =
        Inr (map (\<lambda>j. mandelbrot (Complex (?re ! j) (?im ! i)) max_iter) [0..<nat width])"
      by (rule compute_row_map [rotated])
    also have "map (\<lambda>j. mandelbrot (Complex (?re ! j) (?im ! i)) max_iter) [0..<nat width]
               = ?row i"
      using that by (intro map_cong) simp_all
    finally show ?thesis .
  qed
  have "executor_map (\<lambda>i. compute_row i ?re ?im max_iter width) [0..<nat height]
        = Inr (map ?row [0..<nat height])"
    by (rule executor_map_all_ok) (rule row)
  moreover have "executor_map (\<lambda>(i, r, m, k, w). compute_row i r m k w)
          (map (\<lambda>i. (i, ?re, ?im, max_iter, width)) [0..<nat height])
        = executor_map (\<lambda>i. compute_row i ?re ?im max_iter width) [0..<nat height]"
    by (simp add: executor_map_map)
  moreover have "generate_mandelbrot xmin xmax ymin ymax width height max_iter =
      executor_map (\<lambda>(i, r, m, k, w). compute_row i r m k w)
          (map (\<lambda>i. (i, ?re, ?im, max_iter, width)) [0..<nat height])"
    by (simp only: generate_mandelbrot_def linspace_samples [OF assms(1)]
          linspace_samples [OF assms(2)] zip_arguments sum.case)
  ultimately show ?thesis
    by (simp add: reference_grid_def)
qed

subsection \<open>The samples are evenly spaced and include both endpoints\<close>

lemma evenly_spaced_first: "evenly_spaced lo hi n 0 = lo"
  by (simp add: evenly_spaced_def)

lemma evenly_spaced_last: "1 < n \<Longrightarrow> evenly_spaced lo hi n (nat n - 1) = hi"
proof -
  assume n: "1 < n"
  then have "real (nat n - 1) = of_int (n - 1)" by simp
  moreover from n have "(of_int (n - 1) :: real) \<noteq> 0" by simp
  ultimately show ?thesis using n by (simp add: evenly_spaced_def)
qed

lemma evenly_spaced_step:
  "1 < n \<Longrightarrow>
   evenly_spaced lo hi n (Suc k) - evenly_spaced lo hi n k = (hi - lo) / of_int (n - 1)"
  by (simp add: evenly_spaced_def distrib_right add_divide_distrib)

subsection \<open>Shape of the reference grid\<close>

lemma reference_grid_shape:
  assumes "0 \<le> width" and "0 \<le> height" and "0 \<le> max_iter"
  shows "grid_shape width height max_iter
           (reference_grid xmin xmax ymin ymax width height max_iter)"
  using assms
  by (simp add: grid_shape_def reference_grid_def list_all_iff
        mandelbrot_nonneg mandelbrot_le_cap)

lemma reference_grid_dims:
  assumes "0 \<le> width" and "0 \<le> height"
  shows "grid_dims width height (reference_grid xmin xmax ymin ymax width height max_iter)"
  using assms by (simp add: grid_dims_def reference_grid_def list_all_iff)

text \<open>
  The escape test on real and imaginary parts, for evaluating the model on concrete
  points, and a grid of three by three points over \<open>[-2, 2] \<times> [-2, 2]\<close> with cap \<open>5\<close>.
\<close>

lemma cmod_gt_two_iff: "2 < cmod z \<longleftrightarrow> 4 < (Re z)\<^sup>2 + (Im z)\<^sup>2"
proof -
  have "sqrt 4 = 2" using real_sqrt_abs [of 2] by simp
  then have "2 < cmod z \<longleftrightarrow> sqrt 4 < sqrt ((Re z)\<^sup>2 + (Im z)\<^sup>2)"
    by (simp add: cmod_def)
  then show ?thesis by (simp only: real_sqrt_less_iff)
qed

lemma generate_mandelbrot_small_grid:
  "generate_mandelbrot (-2) 2 (-2) 2 3 3 5 = Inr [ [1, 2, 1], [5, 5, 2], [1, 2, 1] ]"
proof -
  have "[0..<nat 3] = [0, 1, 2]" by (simp add: upt_rec)
  moreover have "[0..<nat 5] = [0, 1, 2, 3, 4]" by (simp add: upt_rec)
  ultimately have "reference_grid (-2) 2 (-2) 2 3 3 5 = [ [1, 2, 1], [5, 5, 2], [1, 2, 1] ]"
    by (simp add: reference_grid_def evenly_spaced_def mandelbrot_def cmod_gt_two_iff
          power2_eq_square)
  then show ?thesis by (simp add: generate_mandelbrot_reference)
qed

subsection \<open>The claims about the generator\<close>

text \<open>
  C1. For every viewport with \<open>xmin < xmax\<close> and \<open>ymin < ymax\<close>, every resolution with
  \<open>width \<ge> 1\<close> and \<open>height \<ge> 1\<close> and every cap \<open>max_iter \<ge> 1\<close>, the generator returns
  the sequential row-major reference grid, whose cell \<open>(i, j)\<close> is the evaluator at the
  point with real part the \<open>j\<close>-th of \<open>width\<close> evenly spaced samples over \<open>[xmin, xmax]\<close>
  and imaginary part the \<open>i\<close>-th of \<open>height\<close> evenly spaced samples over \<open>[ymin, ymax]\<close>.
\<close>

theorem generate_mandelbrot_cells:
  assumes "xmin < xmax" and "ymin < ymax" and "1 \<le> width" and "1 \<le> height"
    and "1 \<le> max_iter" and "i < nat height" and "j < nat width"
  shows "generate_mandelbrot xmin xmax ymin ymax width height max_iter =
           Inr (reference_grid xmin xmax ymin ymax width height max_iter) \<and>
         reference_grid xmin xmax ymin ymax width height max_iter ! i ! j =
           mandelbrot (Complex (evenly_spaced xmin xmax width j)
                               (evenly_spaced ymin ymax height i)) max_iter"
proof
  from assms(3,4) show "generate_mandelbrot xmin xmax ymin ymax width height max_iter =
      Inr (reference_grid xmin xmax ymin ymax width height max_iter)"
    by (intro generate_mandelbrot_reference) simp_all
next
  from assms(6,7) show "reference_grid xmin xmax ymin ymax width height max_iter ! i ! j =
      mandelbrot (Complex (evenly_spaced xmin xmax width j)
                          (evenly_spaced ymin ymax height i)) max_iter"
    by (simp add: reference_grid_def)
qed

theorem generate_mandelbrot_cells_witness:
  "generate_mandelbrot (-2) 2 (-2) 2 3 3 5 = Inr (reference_grid (-2) 2 (-2) 2 3 3 5) \<and>
   reference_grid (-2) 2 (-2) 2 3 3 5 ! 1 ! 2 =
     mandelbrot (Complex (evenly_spaced (-2) 2 3 2) (evenly_spaced (-2) 2 3 1)) 5"
  using generate_mandelbrot_cells [of "-2" 2 "-2" 2 3 3 5 1 2] by simp

text \<open>
  C6. For every viewport with \<open>xmin < xmax\<close> and \<open>ymin < ymax\<close>, every resolution with
  \<open>width \<ge> 1\<close> and \<open>height \<ge> 1\<close> and every cap \<open>max_iter \<ge> 1\<close>, the generator returns
  a grid of exactly \<open>height\<close> rows of exactly \<open>width\<close> cells each, and every cell lies in
  \<open>[0, max_iter]\<close>.
\<close>

theorem generate_mandelbrot_shape:
  assumes "xmin < xmax" and "ymin < ymax" and "1 \<le> width" and "1 \<le> height"
    and "1 \<le> max_iter"
  shows "case generate_mandelbrot xmin xmax ymin ymax width height max_iter of
           Inl e \<Rightarrow> False
         | Inr grid \<Rightarrow> grid_shape width height max_iter grid"
proof -
  from assms have "generate_mandelbrot xmin xmax ymin ymax width height max_iter =
      Inr (reference_grid xmin xmax ymin ymax width height max_iter)"
    by (intro generate_mandelbrot_reference) simp_all
  moreover from assms have "grid_shape width height max_iter
      (reference_grid xmin xmax ymin ymax width height max_iter)"
    by (intro reference_grid_shape) simp_all
  ultimately show ?thesis by simp
qed

theorem generate_mandelbrot_shape_witness:
  "case generate_mandelbrot (-2) 2 (-2) 2 3 3 5 of
     Inl e \<Rightarrow> False
   | Inr grid \<Rightarrow> grid_shape 3 3 5 grid"
  using generate_mandelbrot_shape [of "-2" 2 "-2" 2 3 3 5] by simp

text \<open>
  C4, as the specification states it: a call with \<open>width \<le> 0\<close> or \<open>height \<le> 0\<close>, or
  with \<open>xmin \<ge> xmax\<close> or \<open>ymin \<ge> ymax\<close>, fails with an invalid-parameters error before
  any row is computed. The code checks none of its arguments: with the resolution
  \<open>(0, 800)\<close> it returns \<open>800\<close> empty rows, and with the bounds of the viewport reversed
  it returns a full grid.
\<close>

theorem generate_mandelbrot_unvalidated:
  "generate_mandelbrot (-2.5) 1 (-1.5) 1.5 0 800 100 = Inr (replicate 800 []) \<and>
   generate_mandelbrot 1 (-1) 1 (-1) 1 1 1 = Inr [ [1] ]"
proof
  have "reference_grid (-2.5) 1 (-1.5) 1.5 0 800 100 = replicate 800 []"
    by (simp add: reference_grid_def map_replicate_trivial)
  then show "generate_mandelbrot (-2.5) 1 (-1.5) 1.5 0 800 100 = Inr (replicate 800 [])"
    by (simp add: generate_mandelbrot_reference)
next
  have "reference_grid 1 (-1) 1 (-1) 1 1 1 = [ [1] ]"
    by (simp add: reference_grid_def evenly_spaced_def mandelbrot_def)
  then show "generate_mandelbrot 1 (-1) 1 (-1) 1 1 1 = Inr [ [1] ]"
    by (simp add: generate_mandelbrot_reference)
qed

text \<open>
  C4, amended: among the calls with \<open>width \<le> 0\<close> or \<open>height \<le> 0\<close>, or with
  \<open>xmin \<ge> xmax\<close> or \<open>ymin \<ge> ymax\<close>, those with a negative width or height fail with
  \<^verbatim>\<open>ValueError\<close>, raised while the samples are built and so before any row is
  computed; every other one returns a grid of \<open>height\<close> rows of \<open>width\<close> cells each.
\<close>

theorem generate_mandelbrot_invalid:
  assumes "width \<le> 0 \<or> height \<le> 0 \<or> xmax \<le> xmin \<or> ymax \<le> ymin"
  shows "if width < 0 \<or> height < 0
         then generate_mandelbrot xmin xmax ymin ymax width height max_iter = Inl ValueError \<and>
              (linspace xmin xmax width = Inl ValueError \<or>
               linspace ymin ymax height = Inl ValueError)
         else (case generate_mandelbrot xmin xmax ymin ymax width height max_iter of
                 Inl e \<Rightarrow> False
               | Inr grid \<Rightarrow> grid_dims width height grid)"
proof (cases "width < 0 \<or> height < 0")
  case True
  then show ?thesis by (auto simp: generate_mandelbrot_negative linspace_negative)
next
  case False
  then have "0 \<le> width" and "0 \<le> height" by simp_all
  then show ?thesis
    using False by (simp add: generate_mandelbrot_reference reference_grid_dims)
qed

theorem generate_mandelbrot_invalid_witness:
  "generate_mandelbrot 0 1 0 1 (-1) 1 1 = Inl ValueError \<and>
   (linspace 0 1 (-1) = Inl ValueError \<or> linspace 0 1 1 = Inl ValueError) \<and>
   (case generate_mandelbrot 1 0 0 1 2 3 1 of
      Inl e \<Rightarrow> False
    | Inr grid \<Rightarrow> grid_dims 2 3 grid)"
  using generate_mandelbrot_invalid [of "-1" 1 1 0 1 0 1]
        generate_mandelbrot_invalid [of 2 3 0 1 1 0 1]
  by simp

section \<open>Properties of the viewport history\<close>

text \<open>
  The resolution is fixed and positive, so the rendering inside \<open>update_plot\<close> never
  raises: the call records the viewport and the time and returns.
\<close>

lemma update_plot_returns:
  "update_plot xmin xmax ymin ymax t s =
     (None, s\<lparr>zoom_params := \<lparr>vp_xmin = xmin, vp_xmax = xmax, vp_ymin = ymin, vp_ymax = ymax\<rparr>,
               timing_history := timing_history s @ [t]\<rparr>)"
proof -
  have "generate_mandelbrot xmin xmax ymin ymax global_width global_height global_max_iter =
        Inr (reference_grid xmin xmax ymin ymax global_width global_height global_max_iter)"
    by (rule generate_mandelbrot_reference) (simp_all add: global_width_def global_height_def)
  then show ?thesis by (simp add: update_plot_def)
qed

lemma step_keeps_entry:
  "zoom_history s \<noteq> [] \<Longrightarrow> zoom_history (step a s) \<noteq> []"
proof (cases a)
  case (Select eclick erelease t)
  then show ?thesis by (simp add: onselect_def update_plot_returns Let_def)
next
  case (Reset t)
  then show ?thesis by (simp add: reset_def update_plot_returns Let_def)
next
  case (Back t)
  assume nonempty: "zoom_history s \<noteq> []"
  show ?thesis
  proof (cases "length (zoom_history s) > 1")
    case True
    then have "butlast (zoom_history s) \<noteq> []"
      by (cases "zoom_history s" rule: rev_cases) auto
    with True Back show ?thesis by (simp add: zoom_back_def update_plot_returns Let_def)
  next
    case False
    with nonempty Back show ?thesis by (simp add: zoom_back_def)
  qed
qed

lemma run_keeps_entry:
  "zoom_history s \<noteq> [] \<Longrightarrow> zoom_history (run acts s) \<noteq> []"
  by (induction acts arbitrary: s) (simp_all add: step_keeps_entry)

text \<open>
  C8. The history stack always holds at least one entry: from the initial state, with
  the original viewport as the only entry, every state reached by a sequence of
  selections, resets and steps back has a stack of length at least \<open>1\<close>.
\<close>

theorem history_never_empty:
  "1 \<le> length (zoom_history (run acts initial_state))"
proof -
  have "zoom_history initial_state \<noteq> []" by (simp add: initial_state_def)
  then have "zoom_history (run acts initial_state) \<noteq> []" by (rule run_keeps_entry)
  then show ?thesis by (simp add: Suc_le_eq)
qed

text \<open>
  C5, as the specification states it: with exactly one entry on the stack, a step back
  fails with an error and leaves the state unchanged. In the code the step back on the
  initial state raises nothing: the guard \<^verbatim>\<open>len(zoom_history) > 1\<close> skips the body
  and the handler returns normally.
\<close>

theorem zoom_back_initial_no_error:
  "length (zoom_history initial_state) = 1 \<and> fst (zoom_back 0 initial_state) = None"
  by (simp add: initial_state_def zoom_back_def)

text \<open>
  C5, amended: with exactly one entry on the stack, a step back raises no error and
  leaves the stack, the current viewport and the timings unchanged.
\<close>

theorem zoom_back_single_entry:
  "length (zoom_history s) = 1 \<Longrightarrow> zoom_back t s = (None, s)"
  by (simp add: zoom_back_def)

theorem zoom_back_single_entry_witness:
  "length (zoom_history (snd (reset 2 initial_state))) = 1 \<and>
   zoom_back 1 (snd (reset 2 initial_state)) = (None, snd (reset 2 initial_state))"
proof -
  have one: "length (zoom_history (snd (reset 2 initial_state))) = 1"
    by (simp add: reset_def update_plot_returns Let_def)
  from one zoom_back_single_entry [OF one] show ?thesis by simp
qed

text \<open>
  C3. From the initial state, after the selection of a viewport \<open>A\<close> and then of a
  viewport \<open>B\<close>, a step back should make \<open>A\<close> current. In the code the selection pushes
  the viewport that was current before it, so after the two selections the stack is
  \<open>[original, original, A]\<close> with \<open>B\<close> current; the step back removes \<open>A\<close> and makes
  the new top, the original viewport, current. Here \<open>A = (-1, 0, -1/2, 1/2)\<close> and
  \<open>B = (-3/4, -1/4, -1/4, 1/4)\<close>.
\<close>

theorem zoom_back_skips_selection:
  "zoom_history (run [Select (-1, -1/2) (0, 1/2) 1, Select (-3/4, -1/4) (-1/4, 1/4) 1]
                     initial_state)
     = [original_zoom, original_zoom,
        \<lparr>vp_xmin = -1, vp_xmax = 0, vp_ymin = -1/2, vp_ymax = 1/2\<rparr>] \<and>
   zoom_params (run [Select (-1, -1/2) (0, 1/2) 1, Select (-3/4, -1/4) (-1/4, 1/4) 1]
                    initial_state)
     = \<lparr>vp_xmin = -3/4, vp_xmax = -1/4, vp_ymin = -1/4, vp_ymax = 1/4\<rparr> \<and>
   zoom_history (run [Select (-1, -1/2) (0, 1/2) 1, Select (-3/4, -1/4) (-1/4, 1/4) 1, Back 1]
                     initial_state)
     = [original_zoom, original_zoom] \<and>
   zoom_params (run [Select (-1, -1/2) (0, 1/2) 1, Select (-3/4, -1/4) (-1/4, 1/4) 1, Back 1]
                    initial_state)
     = original_zoom \<and>
   zoom_params (run [Select (-1, -1/2) (0, 1/2) 1, Select (-3/4, -1/4) (-1/4, 1/4) 1, Back 1]
                    initial_state)
     \<noteq> \<lparr>vp_xmin = -1, vp_xmax = 0, vp_ymin = -1/2, vp_ymax = 1/2\<rparr>"
  by (simp add: initial_state_def onselect_def zoom_back_def update_plot_returns Let_def
        original_zoom_def)

end
